theory Spec2Isabelle
  imports Main "HOL-Library.AList"
begin

section \<open>Errors\<close>

text \<open>
  Every exception the modelled code can raise is a value. \<open>HTTPException c d\<close> is FastAPI's
  \<^verbatim>\<open>HTTPException(status_code=c, detail=d)\<close>; \<open>ValueError\<close> is what
  \<^verbatim>\<open>datetime.replace\<close> raises for a day out of range; \<open>KeyError\<close> is a failed
  dictionary subscript.
\<close>

datatype error = HTTPException nat string | ValueError | KeyError

abbreviation InsufficientPoints :: error where
  "InsufficientPoints \<equiv> HTTPException 400 ''Insufficient points''"

abbreviation NotPending :: error where
  "NotPending \<equiv> HTTPException 400 ''Transaction is not pending''"

abbreviation EntryNotFound :: error where
  "EntryNotFound \<equiv> HTTPException 404 ''Transaction not found''"

section \<open>Phase 1.5: the in-memory points ledger (app/api/v1/endpoints/points.py)\<close>

subsection \<open>Data\<close>

text \<open>
  The endpoints store \<^verbatim>\<open>datetime.now().isoformat()\<close> strings. An instant is modelled
  by its number of microseconds; the clock reads of one request are represented by the
  single instant \<open>now\<close> passed to the handler.
\<close>

type_synonym timestamp = int

definition timedelta_days :: "int \<Rightarrow> timestamp" where
  "timedelta_days d = d * 86400000000"

text \<open>The values of \<^verbatim>\<open>fake_points_db\<close> (and the schema \<^verbatim>\<open>PointBalance\<close>).\<close>

record PointBalance =
  user_email :: string
  total_points :: int
  available_points :: int
  pending_points :: int
  used_points :: int
  expired_points :: int
  last_updated :: timestamp

text \<open>The request body \<^verbatim>\<open>PointCreate\<close>: no field carries a validator.\<close>

record PointCreate =
  pc_points :: int
  pc_source :: string
  pc_source_id :: int
  pc_description :: "string option"

text \<open>The values of \<^verbatim>\<open>fake_transactions_db\<close>.\<close>

record ledger_row =
  tx_id :: int
  tx_user_email :: string
  tx_transaction_type :: string
  tx_points :: int
  tx_source :: string
  tx_source_id :: int
  tx_description :: string
  tx_status :: string
  tx_expires_at :: "timestamp option"
  tx_created_at :: timestamp

record PointResponse =
  transaction_id :: int
  message :: string
  resp_points :: int
  new_balance :: int

text \<open>
  The two module-level dictionaries. A Python dict keeps insertion order and unique keys:
  an association list read with \<open>map_of\<close> and written with \<open>AList.update\<close>, which
  replaces the value in place for a key that is present and appends otherwise.
\<close>

record db =
  fake_points_db :: "(string \<times> PointBalance) list"
  fake_transactions_db :: "(int \<times> ledger_row) list"

subsection \<open>String constants of the source (UTF-8 bytes of the Korean literals)\<close>

definition earn_suffix :: string where
  "earn_suffix = [CHR 0xEB, CHR 0xA1, CHR 0x9C, CHR 0x20, CHR 0xED, CHR 0x8F, CHR 0xAC,
     CHR 0xEC, CHR 0x9D, CHR 0xB8, CHR 0xED, CHR 0x8A, CHR 0xB8, CHR 0x20, CHR 0xEC,
     CHR 0xA0, CHR 0x81, CHR 0xEB, CHR 0xA6, CHR 0xBD]"

definition use_suffix :: string where
  "use_suffix = [CHR 0xEB, CHR 0xA1, CHR 0x9C, CHR 0x20, CHR 0xED, CHR 0x8F, CHR 0xAC,
     CHR 0xEC, CHR 0x9D, CHR 0xB8, CHR 0xED, CHR 0x8A, CHR 0xB8, CHR 0x20, CHR 0xEC,
     CHR 0x82, CHR 0xAC, CHR 0xEC, CHR 0x9A, CHR 0xA9]"

definition earn_message :: string where
  "earn_message = [CHR 0xED, CHR 0x8F, CHR 0xAC, CHR 0xEC, CHR 0x9D, CHR 0xB8, CHR 0xED,
     CHR 0x8A, CHR 0xB8, CHR 0xEA, CHR 0xB0, CHR 0x80, CHR 0x20, CHR 0xEC, CHR 0xA0,
     CHR 0x81, CHR 0xEB, CHR 0xA6, CHR 0xBD, CHR 0x20, CHR 0xEC, CHR 0x9A, CHR 0x94,
     CHR 0xEC, CHR 0xB2, CHR 0xAD, CHR 0xEB, CHR 0x90, CHR 0x98, CHR 0xEC, CHR 0x97,
     CHR 0x88, CHR 0xEC, CHR 0x8A, CHR 0xB5, CHR 0xEB, CHR 0x8B, CHR 0x88, CHR 0xEB,
     CHR 0x8B, CHR 0xA4, CHR 0x2E, CHR 0x20, CHR 0xEA, CHR 0xB2, CHR 0x80, CHR 0xED,
     CHR 0x86, CHR 0xA0, CHR 0x20, CHR 0xED, CHR 0x9B, CHR 0x84, CHR 0x20, CHR 0xEC,
     CHR 0x8A, CHR 0xB9, CHR 0xEC, CHR 0x9D, CHR 0xB8, CHR 0xEB, CHR 0x90, CHR 0xA9,
     CHR 0xEB, CHR 0x8B, CHR 0x88, CHR 0xEB, CHR 0x8B, CHR 0xA4, CHR 0x2E]"

definition use_message :: string where
  "use_message = [CHR 0xED, CHR 0x8F, CHR 0xAC, CHR 0xEC, CHR 0x9D, CHR 0xB8, CHR 0xED,
     CHR 0x8A, CHR 0xB8, CHR 0xEA, CHR 0xB0, CHR 0x80, CHR 0x20, CHR 0xEC, CHR 0x82,
     CHR 0xAC, CHR 0xEC, CHR 0x9A, CHR 0xA9, CHR 0xEB, CHR 0x90, CHR 0x98, CHR 0xEC,
     CHR 0x97, CHR 0x88, CHR 0xEC, CHR 0x8A, CHR 0xB5, CHR 0xEB, CHR 0x8B, CHR 0x88,
     CHR 0xEB, CHR 0x8B, CHR 0xA4, CHR 0x2E]"

definition reject_prefix :: string where
  "reject_prefix = [CHR 0x20, CHR 0x28, CHR 0xEA, CHR 0xB1, CHR 0xB0, CHR 0xEB, CHR 0xB6,
     CHR 0x80, CHR 0x20, CHR 0xEC, CHR 0x82, CHR 0xAC, CHR 0xEC, CHR 0x9C, CHR 0xA0,
     CHR 0x3A, CHR 0x20]"

definition review_description :: string where
  "review_description = [CHR 0xEB, CHR 0xA6, CHR 0xAC, CHR 0xEB, CHR 0xB7, CHR 0xB0,
     CHR 0x20, CHR 0xEC, CHR 0x9E, CHR 0x91, CHR 0xEC, CHR 0x84, CHR 0xB1, CHR 0xEC,
     CHR 0x9C, CHR 0xBC] @ earn_suffix"

definition coupon_description :: string where
  "coupon_description = [CHR 0xEC, CHR 0xBF, CHR 0xA0, CHR 0xED, CHR 0x8F, CHR 0xB0,
     CHR 0x20, CHR 0xEA, CHR 0xB5, CHR 0xAC, CHR 0xEB, CHR 0xA7, CHR 0xA4] @ use_suffix"

definition campaign_description :: string where
  "campaign_description = [CHR 0xEC, CHR 0xBA, CHR 0xA0, CHR 0xED, CHR 0x8E, CHR 0x98,
     CHR 0xEC, CHR 0x9D, CHR 0xB8, CHR 0x20, CHR 0xEC, CHR 0xB0, CHR 0xB8, CHR 0xEC,
     CHR 0x97, CHR 0xAC] @ earn_suffix"

text \<open>Python's \<^verbatim>\<open>x or default\<close> on an optional string: \<^verbatim>\<open>None\<close> and the empty
  string are both falsy.\<close>

definition str_or :: "string option \<Rightarrow> string \<Rightarrow> string" where
  "str_or x d = (case x of None \<Rightarrow> d | Some s \<Rightarrow> if s = [] then d else s)"

subsection \<open>The initial contents of the two dictionaries\<close>

definition initial_db :: "timestamp \<Rightarrow> db" where
  "initial_db now =
     \<lparr>fake_points_db =
        [(''admin@linkplace.com'',
          \<lparr>user_email = ''admin@linkplace.com'', total_points = 1500,
           available_points = 1200, pending_points = 300, used_points = 800,
           expired_points = 0, last_updated = now\<rparr>),
         (''user1@example.com'',
          \<lparr>user_email = ''user1@example.com'', total_points = 850,
           available_points = 650, pending_points = 200, used_points = 350,
           expired_points = 50, last_updated = now\<rparr>)],
      fake_transactions_db =
        [(1, \<lparr>tx_id = 1, tx_user_email = ''admin@linkplace.com'',
              tx_transaction_type = ''earned'', tx_points = 500,
              tx_source = ''review_write'', tx_source_id = 1,
              tx_description = review_description, tx_status = ''completed'',
              tx_expires_at = Some (now + timedelta_days 365), tx_created_at = now\<rparr>),
         (2, \<lparr>tx_id = 2, tx_user_email = ''admin@linkplace.com'',
              tx_transaction_type = ''used'', tx_points = - 200,
              tx_source = ''coupon_purchase'', tx_source_id = 10,
              tx_description = coupon_description, tx_status = ''completed'',
              tx_expires_at = None, tx_created_at = now - timedelta_days 1\<rparr>),
         (3, \<lparr>tx_id = 3, tx_user_email = ''user1@example.com'',
              tx_transaction_type = ''earned'', tx_points = 300,
              tx_source = ''campaign_participate'', tx_source_id = 5,
              tx_description = campaign_description, tx_status = ''pending'',
              tx_expires_at = Some (now + timedelta_days 30), tx_created_at = now\<rparr>)]\<rparr>"

subsection \<open>Handlers\<close>

text \<open>
  Each handler takes the dictionaries and returns them as the request leaves them, together
  with the response or the exception raised. \<open>current_user\<close> is what the
  \<^verbatim>\<open>verify_token\<close> dependency yields.
\<close>

definition zero_balance :: "string \<Rightarrow> timestamp \<Rightarrow> PointBalance" where
  "zero_balance current_user now =
     \<lparr>user_email = current_user, total_points = 0, available_points = 0,
      pending_points = 0, used_points = 0, expired_points = 0, last_updated = now\<rparr>"

text \<open>\<^verbatim>\<open>max(fake_transactions_db.keys()) + 1 if fake_transactions_db else 1\<close>\<close>

definition new_transaction_id :: "(int \<times> ledger_row) list \<Rightarrow> int" where
  "new_transaction_id txs = (if txs = [] then 1 else Max (set (map fst txs)) + 1)"

definition get_point_balance :: "string \<Rightarrow> timestamp \<Rightarrow> db \<Rightarrow> db \<times> (error + PointBalance)" where
  "get_point_balance current_user now d =
     (case map_of (fake_points_db d) current_user of
        Some balance \<Rightarrow> (d, Inr balance)
      | None \<Rightarrow>
          (let balance = zero_balance current_user now
           in (d\<lparr>fake_points_db := AList.update current_user balance (fake_points_db d)\<rparr>,
               Inr balance)))"

definition earn_points :: "PointCreate \<Rightarrow> string \<Rightarrow> timestamp \<Rightarrow> db \<Rightarrow> db \<times> (error + PointResponse)" where
  "earn_points point_data current_user now d =
     (let new_id = new_transaction_id (fake_transactions_db d);
          new_transaction =
            \<lparr>tx_id = new_id, tx_user_email = current_user,
             tx_transaction_type = ''earned'', tx_points = pc_points point_data,
             tx_source = pc_source point_data, tx_source_id = pc_source_id point_data,
             tx_description =
               str_or (pc_description point_data) (pc_source point_data @ earn_suffix),
             tx_status = ''pending'',
             tx_expires_at = Some (now + timedelta_days 365), tx_created_at = now\<rparr>;
          txs = AList.update new_id new_transaction (fake_transactions_db d);
          pts = (if map_of (fake_points_db d) current_user = None
                 then AList.update current_user (zero_balance current_user now)
                        (fake_points_db d)
                 else fake_points_db d)
      in case map_of pts current_user of
           None \<Rightarrow> (\<lparr>fake_points_db = pts, fake_transactions_db = txs\<rparr>, Inl KeyError)
         | Some balance \<Rightarrow>
             (let balance' = balance
                    \<lparr>pending_points := pending_points balance + pc_points point_data,
                     last_updated := now\<rparr>
              in (\<lparr>fake_points_db = AList.update current_user balance' pts,
                   fake_transactions_db = txs\<rparr>,
                  Inr \<lparr>transaction_id = new_id, message = earn_message,
                       resp_points = pc_points point_data,
                       new_balance = available_points balance' + pending_points balance'\<rparr>)))"

definition use_points :: "PointCreate \<Rightarrow> string \<Rightarrow> timestamp \<Rightarrow> db \<Rightarrow> db \<times> (error + PointResponse)" where
  "use_points point_data current_user now d =
     (case map_of (fake_points_db d) current_user of
        None \<Rightarrow> (d, Inl InsufficientPoints)
      | Some balance \<Rightarrow>
          if available_points balance < pc_points point_data
          then (d, Inl InsufficientPoints)
          else
            (let new_id = new_transaction_id (fake_transactions_db d);
                 new_transaction =
                   \<lparr>tx_id = new_id, tx_user_email = current_user,
                    tx_transaction_type = ''used'', tx_points = - pc_points point_data,
                    tx_source = pc_source point_data,
                    tx_source_id = pc_source_id point_data,
                    tx_description =
                      str_or (pc_description point_data) (pc_source point_data @ use_suffix),
                    tx_status = ''completed'', tx_expires_at = None, tx_created_at = now\<rparr>;
                 txs = AList.update new_id new_transaction (fake_transactions_db d);
                 balance' = balance
                   \<lparr>available_points := available_points balance - pc_points point_data,
                    used_points := used_points balance + pc_points point_data,
                    last_updated := now\<rparr>
             in (\<lparr>fake_points_db = AList.update current_user balance' (fake_points_db d),
                  fake_transactions_db = txs\<rparr>,
                 Inr \<lparr>transaction_id = new_id, message = use_message,
                      resp_points = pc_points point_data,
                      new_balance = available_points balance'\<rparr>)))"

definition approve_transaction :: "int \<Rightarrow> string \<Rightarrow> timestamp \<Rightarrow> db \<Rightarrow> db \<times> (error + string)" where
  "approve_transaction tid current_user now d =
     (case map_of (fake_transactions_db d) tid of
        None \<Rightarrow> (d, Inl EntryNotFound)
      | Some transaction \<Rightarrow>
          if tx_status transaction \<noteq> ''pending'' then (d, Inl NotPending)
          else
            (let txs = AList.update tid (transaction\<lparr>tx_status := ''completed''\<rparr>)
                         (fake_transactions_db d);
                 pts =
                   (if tx_transaction_type transaction = ''earned''
                    then (case map_of (fake_points_db d) (tx_user_email transaction) of
                            None \<Rightarrow> fake_points_db d
                          | Some balance \<Rightarrow>
                              AList.update (tx_user_email transaction)
                                (balance
                                   \<lparr>total_points := total_points balance + tx_points transaction,
                                    available_points :=
                                      available_points balance + tx_points transaction,
                                    pending_points :=
                                      pending_points balance - tx_points transaction,
                                    last_updated := now\<rparr>)
                                (fake_points_db d))
                    else fake_points_db d)
             in (\<lparr>fake_points_db = pts, fake_transactions_db = txs\<rparr>,
                 Inr ''Transaction approved successfully'')))"

definition reject_transaction :: "int \<Rightarrow> string \<Rightarrow> string \<Rightarrow> timestamp \<Rightarrow> db \<Rightarrow> db \<times> (error + string)" where
  "reject_transaction tid reason current_user now d =
     (case map_of (fake_transactions_db d) tid of
        None \<Rightarrow> (d, Inl EntryNotFound)
      | Some transaction \<Rightarrow>
          if tx_status transaction \<noteq> ''pending'' then (d, Inl NotPending)
          else
            (let txs = AList.update tid
                         (transaction
                            \<lparr>tx_description :=
                               tx_description transaction @ reject_prefix @ reason @ '')'',
                             tx_status := ''failed''\<rparr>)
                         (fake_transactions_db d);
                 pts =
                   (if tx_transaction_type transaction = ''earned''
                    then (case map_of (fake_points_db d) (tx_user_email transaction) of
                            None \<Rightarrow> fake_points_db d
                          | Some balance \<Rightarrow>
                              AList.update (tx_user_email transaction)
                                (balance
                                   \<lparr>pending_points :=
                                      pending_points balance - tx_points transaction,
                                    last_updated := now\<rparr>)
                                (fake_points_db d))
                    else fake_points_db d)
             in (\<lparr>fake_points_db = pts, fake_transactions_db = txs\<rparr>,
                 Inr ''Transaction rejected successfully'')))"

subsection \<open>Sequences of requests\<close>

text \<open>A request names the handler and carries its parameters; \<open>run\<close> serves a list of
  requests in order, each at its own instant, whether or not a request raises.\<close>

datatype request =
    GetBalance string
  | Earn PointCreate string
  | Use PointCreate string
  | Approve int string
  | Reject int string string

fun handle :: "request \<Rightarrow> timestamp \<Rightarrow> db \<Rightarrow> db" where
  "handle (GetBalance u) now d = fst (get_point_balance u now d)"
| "handle (Earn pd u) now d = fst (earn_points pd u now d)"
| "handle (Use pd u) now d = fst (use_points pd u now d)"
| "handle (Approve i u) now d = fst (approve_transaction i u now d)"
| "handle (Reject i reason u) now d = fst (reject_transaction i reason u now d)"

fun run :: "(request \<times> timestamp) list \<Rightarrow> db \<Rightarrow> db" where
  "run [] d = d"
| "run ((r, now) # rs) d = run rs (handle r now d)"

text \<open>An earning request carries a non-negative amount; other requests are unconstrained.\<close>

fun amount_nonneg :: "request \<Rightarrow> bool" where
  "amount_nonneg (Earn pd u) = (0 \<le> pc_points pd)"
| "amount_nonneg _ = True"

text \<open>Every pending row is an earning whose owner has a balance record.\<close>

definition pending_ok :: "db \<Rightarrow> bool" where
  "pending_ok d \<longleftrightarrow>
     (\<forall>i tx. map_of (fake_transactions_db d) i = Some tx \<longrightarrow> tx_status tx = ''pending'' \<longrightarrow>
        tx_transaction_type tx = ''earned'' \<and>
        map_of (fake_points_db d) (tx_user_email tx) \<noteq> None)"

text \<open>No balance record is negative and no pending earning carries a negative amount.\<close>

definition nonneg_ok :: "db \<Rightarrow> bool" where
  "nonneg_ok d \<longleftrightarrow>
     (\<forall>u b. map_of (fake_points_db d) u = Some b \<longrightarrow> 0 \<le> available_points b) \<and>
     (\<forall>i tx. map_of (fake_transactions_db d) i = Some tx \<longrightarrow> tx_status tx = ''pending'' \<longrightarrow>
        0 \<le> tx_points tx)"

section \<open>Phase 1: the PointTransaction entity (app/models/point_transaction.py)\<close>

subsection \<open>Enumerations\<close>

datatype TransactionType = EARNED | SPENT | REFUNDED | EXPIRED | ADJUSTED | BONUS | PENALTY

datatype TransactionSource =
  CAMPAIGN | REVIEW | REFERRAL | PURCHASE | SIGNUP | DAILY_CHECKIN | EVENT | ADMIN
  | SOCIAL_SHARE | BIRTHDAY | EXPIRATION | OTHER

datatype TransactionStatus = PENDING | COMPLETED | FAILED | CANCELLED | REVERSED

subsection \<open>Python's datetime, as far as the entity uses it\<close>

record datetime =
  year :: int
  month :: int
  day :: int
  hour :: int
  minute :: int
  second :: int
  microsecond :: int








subsection \<open>The entity\<close>

text \<open>
  The columns the modelled methods read or write. An attribute that is not passed to the
  constructor is \<^verbatim>\<open>None\<close> on the new object (a column default applies only when the
  row is inserted), hence the options. \<open>user_id\<close>, \<open>transaction_type\<close>, \<open>source\<close>,
  \<open>points\<close> and \<open>description\<close> are passed by every constructor call of the module.
\<close>

record PointTransaction =
  pt_id :: "int option"
  user_id :: int
  campaign_id :: "int option"
  transaction_type :: TransactionType
  source :: TransactionSource
  status :: "TransactionStatus option"
  points :: int
  balance_before :: "int option"
  balance_after :: "int option"
  description :: string
  reference_id :: "string option"
  reference_type :: "string option"
  expires_at :: "datetime option"
  is_expired :: "bool option"
  related_transaction_id :: "int option"
  admin_user_id :: "int option"
  admin_notes :: "string option"
  processed_at :: "datetime option"

text \<open>The constructor call with the five attributes every call passes.\<close>

definition new_PointTransaction ::
  "int \<Rightarrow> TransactionType \<Rightarrow> TransactionSource \<Rightarrow> int \<Rightarrow> string \<Rightarrow> PointTransaction" where
  "new_PointTransaction uid ty src pts descr =
     \<lparr>pt_id = None, user_id = uid, campaign_id = None, transaction_type = ty, source = src,
      status = None, points = pts, balance_before = None, balance_after = None,
      description = descr, reference_id = None, reference_type = None, expires_at = None,
      is_expired = None, related_transaction_id = None, admin_user_id = None,
      admin_notes = None, processed_at = None\<rparr>"


definition is_spending_transaction :: "PointTransaction \<Rightarrow> bool" where
  "is_spending_transaction self = (transaction_type self \<in> set [SPENT, EXPIRED, PENALTY])"

definition is_completed :: "PointTransaction \<Rightarrow> bool" where
  "is_completed self = (status self = Some COMPLETED)"

definition is_pending :: "PointTransaction \<Rightarrow> bool" where
  "is_pending self = (status self = Some PENDING)"

definition absolute_points :: "PointTransaction \<Rightarrow> int" where
  "absolute_points self = \<bar>points self\<bar>"


definition complete :: "PointTransaction \<Rightarrow> datetime \<Rightarrow> PointTransaction" where
  "complete self utcnow = self\<lparr>status := Some COMPLETED, processed_at := Some utcnow\<rparr>"

text \<open>\<^verbatim>\<open>if reason:\<close> holds for a string that is neither \<^verbatim>\<open>None\<close> nor empty.\<close>

definition truthy :: "string option \<Rightarrow> bool" where
  "truthy x = (case x of None \<Rightarrow> False | Some s \<Rightarrow> s \<noteq> [])"

definition fail :: "PointTransaction \<Rightarrow> string option \<Rightarrow> datetime \<Rightarrow> PointTransaction" where
  "fail self reason utcnow =
     (let self1 = self\<lparr>status := Some FAILED, processed_at := Some utcnow\<rparr>
      in if truthy reason then self1\<lparr>admin_notes := reason\<rparr> else self1)"

definition cancel :: "PointTransaction \<Rightarrow> string option \<Rightarrow> datetime \<Rightarrow> PointTransaction" where
  "cancel self reason utcnow =
     (let self1 = self\<lparr>status := Some CANCELLED, processed_at := Some utcnow\<rparr>
      in if truthy reason then self1\<lparr>admin_notes := reason\<rparr> else self1)"

text \<open>Python's \<^verbatim>\<open>str\<close> of an integer, and of an optional one in an f-string.\<close>

fun str_nat :: "nat \<Rightarrow> string" where
  "str_nat n =
     (if n < 10 then [char_of (48 + n)] else str_nat (n div 10) @ [char_of (48 + n mod 10)])"

declare str_nat.simps [simp del]

definition str_int :: "int \<Rightarrow> string" where
  "str_int i = (if i < 0 then CHR ''-'' # str_nat (nat (- i)) else str_nat (nat i))"

definition str_opt_int :: "int option \<Rightarrow> string" where
  "str_opt_int x = (case x of None \<Rightarrow> ''None'' | Some i \<Rightarrow> str_int i)"

text \<open>\<open>reverse\<close> returns the entity as the call leaves it and the new reversal entity.
  It has no access to any balance and contains no check and no \<^verbatim>\<open>raise\<close>.\<close>

definition reverse ::
  "PointTransaction \<Rightarrow> int \<Rightarrow> string option \<Rightarrow> datetime \<Rightarrow> PointTransaction \<times> PointTransaction" where
  "reverse self admin reason utcnow =
     (let reverse_transaction =
            (new_PointTransaction (user_id self) ADJUSTED ADMIN (- points self)
               (''Reversal of transaction #'' @ str_opt_int (pt_id self) @ '': '' @
                str_or reason ''Administrative reversal''))
            \<lparr>status := Some COMPLETED, balance_before := Some 0, balance_after := Some 0,
             related_transaction_id := pt_id self, admin_user_id := Some admin,
             admin_notes := reason, processed_at := Some utcnow\<rparr>
      in (self\<lparr>status := Some REVERSED\<rparr>, reverse_transaction))"


definition expire :: "PointTransaction \<Rightarrow> PointTransaction" where
  "expire self = self\<lparr>status := Some COMPLETED, is_expired := Some True\<rparr>"




subsection \<open>Sample values\<close>

text \<open>A clock reading (15 September 2025) and a stored entity with id 4, used where a
  statement is evaluated at a concrete input.\<close>

definition sample_utcnow :: datetime where
  "sample_utcnow = \<lparr>year = 2025, month = 9, day = 15, hour = 10, minute = 25, second = 37,
     microsecond = 0\<rparr>"

definition sample_entry :: "TransactionType \<Rightarrow> TransactionStatus \<Rightarrow> PointTransaction" where
  "sample_entry ty st =
     (new_PointTransaction 1 ty REVIEW (if ty = SPENT then - 100 else 100) ''sample'')
     \<lparr>pt_id := Some 4, status := Some st, balance_before := Some 0, balance_after := Some 100\<rparr>"

definition sample_earn :: "int \<Rightarrow> PointCreate" where
  "sample_earn p = \<lparr>pc_points = p, pc_source = ''review_write'', pc_source_id = 1,
     pc_description = None\<rparr>"

section \<open>Properties of the phase 1.5 ledger\<close>

subsection \<open>Dictionary facts\<close>

lemma update_absent: "map_of al k = None \<Longrightarrow> AList.update k v al = al @ [(k, v)]"
  by (induction al) (auto split: if_splits)

lemma new_transaction_id_fresh: "map_of txs (new_transaction_id txs) = None"
proof (cases "txs = []")
  case True
  then show ?thesis by simp
next
  case False
  have "k \<le> Max (set (map fst txs))" if "k \<in> set (map fst txs)" for k
    using that by (intro Max_ge) auto
  from this [of "Max (set (map fst txs)) + 1"]
  have "Max (set (map fst txs)) + 1 \<notin> set (map fst txs)"
    by auto
  with False show ?thesis
    by (simp add: new_transaction_id_def map_of_eq_None_iff)
qed

subsection \<open>Reading the balance of a new user\<close>

text \<open>
  Claim C10. For a user with no balance record, \<open>get_point_balance\<close> does not raise: it
  returns a balance whose total, available, pending, used and expired points are all 0,
  and stores that record under the user's key (appended to the dictionary), leaving the
  ledger and every other record as they were.
\<close>

theorem get_point_balance_new_user:
  assumes "map_of (fake_points_db d) u = None"
  shows "get_point_balance u now d =
           (d\<lparr>fake_points_db := fake_points_db d @ [(u, zero_balance u now)]\<rparr>,
            Inr \<lparr>user_email = u, total_points = 0, available_points = 0, pending_points = 0,
                 used_points = 0, expired_points = 0, last_updated = now\<rparr>)"
  using assms by (simp add: get_point_balance_def zero_balance_def update_absent Let_def)

theorem get_point_balance_new_user_witness:
  "map_of (fake_points_db (initial_db 0)) ''new@example.com'' = None \<and>
   get_point_balance ''new@example.com'' 7 (initial_db 0) =
     ((initial_db 0)\<lparr>fake_points_db := fake_points_db (initial_db 0) @
         [(''new@example.com'', zero_balance ''new@example.com'' 7)]\<rparr>,
      Inr \<lparr>user_email = ''new@example.com'', total_points = 0, available_points = 0,
           pending_points = 0, used_points = 0, expired_points = 0, last_updated = 7\<rparr>)"
proof -
  have h: "map_of (fake_points_db (initial_db 0)) ''new@example.com'' = None"
    by (simp add: initial_db_def)
  show ?thesis using h get_point_balance_new_user [OF h, of 7] by simp
qed

subsection \<open>Spending more than is available\<close>

text \<open>
  Claim C2. When the user's record has fewer available points than the request asks for,
  \<open>use_points\<close> raises the 400 error "Insufficient points" and both dictionaries (the
  balances and the ledger) are exactly as before the call. The witness is the user with
  0 available points spending 50.
\<close>

theorem use_points_insufficient:
  assumes "map_of (fake_points_db d) u = Some b"
    and "available_points b < pc_points pd"
  shows "use_points pd u now d = (d, Inl InsufficientPoints)"
  using assms by (simp add: use_points_def)

theorem use_points_insufficient_witness:
  "(let d = \<lparr>fake_points_db = [(''u@example.com'', zero_balance ''u@example.com'' 0)],
             fake_transactions_db = []\<rparr>;
        pd = \<lparr>pc_points = 50, pc_source = ''coupon'', pc_source_id = 1,
              pc_description = Some ''x''\<rparr>
    in map_of (fake_points_db d) ''u@example.com'' = Some (zero_balance ''u@example.com'' 0) \<and>
       available_points (zero_balance ''u@example.com'' 0) < pc_points pd \<and>
       use_points pd ''u@example.com'' 9 d = (d, Inl InsufficientPoints))"
proof -
  let ?d = "\<lparr>fake_points_db = [(''u@example.com'', zero_balance ''u@example.com'' 0)],
             fake_transactions_db = []\<rparr>"
  let ?pd = "\<lparr>pc_points = 50, pc_source = ''coupon'', pc_source_id = 1,
              pc_description = Some ''x''\<rparr>"
  have h1: "map_of (fake_points_db ?d) ''u@example.com'' = Some (zero_balance ''u@example.com'' 0)"
    by simp
  have h2: "available_points (zero_balance ''u@example.com'' 0) < pc_points ?pd"
    by (simp add: zero_balance_def)
  show ?thesis
    using h1 h2 use_points_insufficient [OF h1 h2, of 9] by (simp add: Let_def)
qed

subsection \<open>Earning, then approval\<close>


subsection \<open>Rejecting a pending row, twice\<close>

lemma pending_ok_initial: "pending_ok (initial_db t0)"
  by (auto simp: pending_ok_def initial_db_def split: if_splits)

lemma pending_ok_get: "pending_ok d \<Longrightarrow> pending_ok (fst (get_point_balance u now d))"
  by (auto simp: pending_ok_def get_point_balance_def Let_def update_conv' split: option.splits)

lemma pending_ok_earn: "pending_ok d \<Longrightarrow> pending_ok (fst (earn_points pd u now d))"
  by (auto simp: pending_ok_def earn_points_def Let_def update_conv' split: option.splits if_splits)

lemma pending_ok_use: "pending_ok d \<Longrightarrow> pending_ok (fst (use_points pd u now d))"
  by (auto simp: pending_ok_def use_points_def Let_def update_conv' split: option.splits if_splits)

lemma pending_ok_approve: "pending_ok d \<Longrightarrow> pending_ok (fst (approve_transaction i u now d))"
  by (auto simp: pending_ok_def approve_transaction_def Let_def update_conv' split: option.splits if_splits)

lemma pending_ok_reject: "pending_ok d \<Longrightarrow> pending_ok (fst (reject_transaction i r u now d))"
  by (auto simp: pending_ok_def reject_transaction_def Let_def update_conv' split: option.splits if_splits)

lemma pending_ok_handle: "pending_ok d \<Longrightarrow> pending_ok (handle r now d)"
  by (cases r) (simp_all add: pending_ok_get pending_ok_earn pending_ok_use pending_ok_approve pending_ok_reject)

lemma pending_ok_run: "pending_ok d \<Longrightarrow> pending_ok (run reqs d)"
  by (induction reqs arbitrary: d) (auto simp: pending_ok_handle)

lemma reject_pending_earned:
  assumes "map_of (fake_transactions_db d) i = Some tx"
    and "tx_status tx = ''pending''"
    and "tx_transaction_type tx = ''earned''"
    and "map_of (fake_points_db d) (tx_user_email tx) = Some b"
  shows "(case reject_transaction i reason admin now d of (d1, r1) \<Rightarrow>
        r1 = Inr ''Transaction rejected successfully'' \<and>
        map_of (fake_transactions_db d1) i =
          Some (tx\<lparr>tx_description := tx_description tx @ reject_prefix @ reason @ '')'',
                   tx_status := ''failed''\<rparr>) \<and>
        map_of (fake_points_db d1) (tx_user_email tx) =
          Some (b\<lparr>pending_points := pending_points b - tx_points tx, last_updated := now\<rparr>) \<and>
        reject_transaction i reason' admin' now' d1 = (d1, Inl NotPending))"
  using assms by (simp add: reject_transaction_def Let_def update_conv')

text \<open>
  Claim C7. In every state the running service can reach from its initial dictionaries,
  rejecting a pending row succeeds, sets the row's status to failed (and appends the reason
  to its description), and changes the owner's balance record only in \<open>pending_points\<close>,
  which drops by the row's amount, and the time stamp: \<open>available_points\<close> and
  \<open>total_points\<close> stay. A second reject of the same id, with any reason, caller and
  time, raises the 400 error "Transaction is not pending" and leaves both dictionaries
  exactly as the first reject left them.
\<close>

theorem reject_twice:
  assumes "d = run reqs (initial_db t0)"
    and "map_of (fake_transactions_db d) i = Some tx"
    and "tx_status tx = ''pending''"
  shows "\<exists>b. map_of (fake_points_db d) (tx_user_email tx) = Some b \<and>
     (case reject_transaction i reason admin now d of (d1, r1) \<Rightarrow>
        r1 = Inr ''Transaction rejected successfully'' \<and>
        map_of (fake_transactions_db d1) i =
          Some (tx\<lparr>tx_description := tx_description tx @ reject_prefix @ reason @ '')'',
                   tx_status := ''failed''\<rparr>) \<and>
        map_of (fake_points_db d1) (tx_user_email tx) =
          Some (b\<lparr>pending_points := pending_points b - tx_points tx, last_updated := now\<rparr>) \<and>
        reject_transaction i reason' admin' now' d1 = (d1, Inl NotPending))"
proof -
  have "pending_ok d"
    using assms(1) pending_ok_initial pending_ok_run by simp
  with assms(2,3) have ty: "tx_transaction_type tx = ''earned''"
    and "map_of (fake_points_db d) (tx_user_email tx) \<noteq> None"
    unfolding pending_ok_def by blast+
  then obtain b where b: "map_of (fake_points_db d) (tx_user_email tx) = Some b"
    by auto
  show ?thesis
    by (rule exI [of _ b], rule conjI [OF b], rule reject_pending_earned [OF assms(2,3) ty b])
qed

theorem reject_twice_witness:
  "run [] (initial_db 0) = run [] (initial_db 0) \<and>
   map_of (fake_transactions_db (run [] (initial_db 0))) 3 =
     Some (the (map_of (fake_transactions_db (initial_db 0)) 3)) \<and>
   tx_status (the (map_of (fake_transactions_db (initial_db 0)) 3)) = ''pending'' \<and>
   fst (reject_transaction 3 ''spam'' ''admin@linkplace.com'' 5 (initial_db 0)) =
     \<lparr>fake_points_db =
        [(''admin@linkplace.com'', the (map_of (fake_points_db (initial_db 0)) ''admin@linkplace.com'')),
         (''user1@example.com'',
          \<lparr>user_email = ''user1@example.com'', total_points = 850, available_points = 650,
           pending_points = - 100, used_points = 350, expired_points = 50, last_updated = 5\<rparr>)],
      fake_transactions_db =
        [(1, the (map_of (fake_transactions_db (initial_db 0)) 1)),
         (2, the (map_of (fake_transactions_db (initial_db 0)) 2)),
         (3, (the (map_of (fake_transactions_db (initial_db 0)) 3))
               \<lparr>tx_description := campaign_description @ reject_prefix @ ''spam'' @ '')'',
                tx_status := ''failed''\<rparr>)]\<rparr> \<and>
   reject_transaction 3 ''again'' ''admin@linkplace.com'' 6
       (fst (reject_transaction 3 ''spam'' ''admin@linkplace.com'' 5 (initial_db 0))) =
     (fst (reject_transaction 3 ''spam'' ''admin@linkplace.com'' 5 (initial_db 0)),
      Inl NotPending)"
proof -
  let ?tx = "the (map_of (fake_transactions_db (initial_db 0)) 3)"
  have h1: "run [] (initial_db 0) = run [] (initial_db 0)" by simp
  have h2: "map_of (fake_transactions_db (run [] (initial_db 0))) 3 = Some ?tx"
    by (simp add: initial_db_def)
  have h3: "tx_status ?tx = ''pending''"
    by (simp add: initial_db_def)
  have st: "fst (reject_transaction 3 ''spam'' ''admin@linkplace.com'' 5 (initial_db 0)) =
     \<lparr>fake_points_db =
        [(''admin@linkplace.com'', the (map_of (fake_points_db (initial_db 0)) ''admin@linkplace.com'')),
         (''user1@example.com'',
          \<lparr>user_email = ''user1@example.com'', total_points = 850, available_points = 650,
           pending_points = - 100, used_points = 350, expired_points = 50, last_updated = 5\<rparr>)],
      fake_transactions_db =
        [(1, the (map_of (fake_transactions_db (initial_db 0)) 1)),
         (2, the (map_of (fake_transactions_db (initial_db 0)) 2)),
         (3, (the (map_of (fake_transactions_db (initial_db 0)) 3))
               \<lparr>tx_description := campaign_description @ reject_prefix @ ''spam'' @ '')'',
                tx_status := ''failed''\<rparr>)]\<rparr>"
    by (simp add: reject_transaction_def initial_db_def Let_def)
  from reject_twice [OF h1 h2 h3, where reason = "''spam''"
      and admin = "''admin@linkplace.com''" and now = 5 and reason' = "''again''"
      and admin' = "''admin@linkplace.com''" and now' = 6]
  have "reject_transaction 3 ''again'' ''admin@linkplace.com'' 6
       (fst (reject_transaction 3 ''spam'' ''admin@linkplace.com'' 5 (initial_db 0))) =
     (fst (reject_transaction 3 ''spam'' ''admin@linkplace.com'' 5 (initial_db 0)),
      Inl NotPending)"
    by (auto simp: split_beta)
  with h1 h2 h3 st show ?thesis by blast
qed

subsection \<open>Non-negative available points\<close>

text \<open>
  The handlers keep every \<open>available_points\<close> at or above 0 as long as no earning
  request carries a negative amount: \<open>use_points\<close> refuses to take more than is
  available, and \<open>approve_transaction\<close> adds the amount of a pending row.
\<close>

lemma nonneg_ok_initial: "nonneg_ok (initial_db t0)"
  by (auto simp: nonneg_ok_def initial_db_def split: if_splits)

lemma nonneg_ok_get: "nonneg_ok d \<Longrightarrow> nonneg_ok (fst (get_point_balance u now d))"
  by (auto simp: nonneg_ok_def get_point_balance_def Let_def update_conv' zero_balance_def split: option.splits if_splits)

lemma nonneg_ok_earn: "nonneg_ok d \<Longrightarrow> 0 \<le> pc_points pd \<Longrightarrow> nonneg_ok (fst (earn_points pd u now d))"
  by (auto simp: nonneg_ok_def earn_points_def Let_def update_conv' zero_balance_def split: option.splits if_splits)

lemma nonneg_ok_use: "nonneg_ok d \<Longrightarrow> nonneg_ok (fst (use_points pd u now d))"
  by (auto simp: nonneg_ok_def use_points_def Let_def update_conv' split: option.splits if_splits)

lemma nonneg_ok_approve: "nonneg_ok d \<Longrightarrow> nonneg_ok (fst (approve_transaction i u now d))"
  by (auto simp: nonneg_ok_def approve_transaction_def Let_def update_conv' split: option.splits if_splits)

lemma nonneg_ok_reject: "nonneg_ok d \<Longrightarrow> nonneg_ok (fst (reject_transaction i r u now d))"
  by (auto simp: nonneg_ok_def reject_transaction_def Let_def update_conv' split: option.splits if_splits)

lemma nonneg_ok_handle:
  "nonneg_ok d \<Longrightarrow> amount_nonneg r \<Longrightarrow> nonneg_ok (handle r now d)"
  by (cases r)
     (simp_all add: nonneg_ok_get nonneg_ok_earn nonneg_ok_use nonneg_ok_approve
        nonneg_ok_reject)

lemma nonneg_ok_run:
  "nonneg_ok d \<Longrightarrow> \<forall>(r, now) \<in> set reqs. amount_nonneg r \<Longrightarrow> nonneg_ok (run reqs d)"
  by (induction reqs arbitrary: d) (auto simp: nonneg_ok_handle)

lemma available_nonneg_without_negative_earn:
  assumes "\<forall>(r, now) \<in> set reqs. amount_nonneg r"
    and "map_of (fake_points_db (run reqs (initial_db t0))) u = Some b"
  shows "0 \<le> available_points b"
  using nonneg_ok_run [OF nonneg_ok_initial assms(1)] assms(2)
  unfolding nonneg_ok_def by blast

text \<open>
  Claim C1 (available points never negative). \<open>earn_points\<close> accepts any integer
  from the request body. Starting from the initial dictionaries, a user without a record
  earns \<open>- 100\<close> points (row 4, pending, \<open>pending_points = - 100\<close>) and the row is
  approved: the user's \<open>available_points\<close> is then \<open>- 100\<close>.
\<close>

theorem negative_earning_overdraws:
  "map_option available_points
     (map_of (fake_points_db
        (run [(Earn (sample_earn (- 100)) ''new@example.com'', 1),
              (Approve 4 ''admin@linkplace.com'', 2)] (initial_db 0)))
        ''new@example.com'') = Some (- 100)"
  by (simp add: earn_points_def approve_transaction_def Let_def initial_db_def
      new_transaction_id_def zero_balance_def sample_earn_def str_or_def)

section \<open>Properties of the phase 1 entity\<close>

subsection \<open>Reversal\<close>

text \<open>
  Claim C4, as the code has it. \<open>reverse\<close> checks no status and raises nothing: for an
  entity in any status it returns the entity with status reversed (and nothing else
  changed) and a new entity of kind adjusted, source admin, status completed, whose points
  are the negation of the original's and whose \<open>related_transaction_id\<close> is the
  original's id.
\<close>

theorem reverse_any_status:
  "(case reverse t admin reason utcnow of (t', r) \<Rightarrow>
      t' = t\<lparr>status := Some REVERSED\<rparr> \<and>
      transaction_type r = ADJUSTED \<and> source r = ADMIN \<and> status r = Some COMPLETED \<and>
      points r = - points t \<and> related_transaction_id r = pt_id t \<and>
      user_id r = user_id t \<and> admin_user_id r = Some admin \<and> admin_notes r = reason)"
  by (simp add: reverse_def Let_def new_PointTransaction_def)

text \<open>
  The claim as stated asks for a failure on an entity that is not completed. A pending
  entity is reversed like any other.
\<close>

theorem reverse_pending_counterexample:
  "\<not> is_completed (sample_entry EARNED PENDING) \<and>
   status (fst (reverse (sample_entry EARNED PENDING) 2 None sample_utcnow)) = Some REVERSED \<and>
   status (snd (reverse (sample_entry EARNED PENDING) 2 None sample_utcnow)) = Some COMPLETED \<and>
   points (snd (reverse (sample_entry EARNED PENDING) 2 None sample_utcnow)) = - 100"
  by (simp add: reverse_def Let_def new_PointTransaction_def sample_entry_def is_completed_def)

subsection \<open>Snapshot balances\<close>

text \<open>
  Claim C3, as the code has it. The entity \<open>reverse\<close> creates is completed and
  carries the placeholders \<open>balance_before = 0\<close> and \<open>balance_after = 0\<close>, so
  \<open>balance_after = balance_before + points\<close> holds for it exactly when the reversed
  entity has 0 points. The transitions to completed, \<open>complete\<close> and \<open>expire\<close>,
  leave \<open>balance_before\<close>, \<open>balance_after\<close> and \<open>points\<close> as they find them.
\<close>

theorem snapshot_balances:
  "(case reverse t admin reason utcnow of (t', r) \<Rightarrow>
      is_completed r \<and> balance_before r = Some 0 \<and> balance_after r = Some 0 \<and>
      (balance_after r = map_option (\<lambda>b. b + points r) (balance_before r) \<longleftrightarrow> points t = 0)) \<and>
   balance_before (complete t utcnow) = balance_before t \<and>
   balance_after (complete t utcnow) = balance_after t \<and>
   points (complete t utcnow) = points t \<and>
   balance_before (expire t) = balance_before t \<and>
   balance_after (expire t) = balance_after t \<and>
   points (expire t) = points t"
  by (simp add: reverse_def Let_def new_PointTransaction_def is_completed_def complete_def expire_def)

text \<open>
  The reversal of a completed entity of 100 points is completed, has
  \<open>balance_before = 0\<close> and \<open>points = - 100\<close>, and its \<open>balance_after\<close> is not
  \<open>- 100\<close>.
\<close>

theorem reversal_snapshot_counterexample:
  "is_completed (snd (reverse (sample_entry EARNED COMPLETED) 2 None sample_utcnow)) \<and>
   balance_before (snd (reverse (sample_entry EARNED COMPLETED) 2 None sample_utcnow)) = Some 0 \<and>
   points (snd (reverse (sample_entry EARNED COMPLETED) 2 None sample_utcnow)) = - 100 \<and>
   balance_after (snd (reverse (sample_entry EARNED COMPLETED) 2 None sample_utcnow)) \<noteq>
     Some (0 + - 100)"
  by (simp add: reverse_def Let_def new_PointTransaction_def sample_entry_def is_completed_def)

subsection \<open>The factories\<close>



subsection \<open>Expiry dates\<close>







section \<open>Earning, approval and reversal together\<close>

text \<open>
  Claim C8, as the code has it. \<open>reverse\<close> works on the entity alone: it takes no
  balance and returns none. After \<open>earn_points\<close> with 100 points and
  \<open>approve_transaction\<close> of the new row, the user's \<open>available_points\<close> is its
  value before the earning plus 100 and the row is completed; reversing an entity with the
  row's id and amount returns that entity with status reversed and a new completed
  adjustment of \<open>- 100\<close> points linked to the id, and the dictionaries stay as the
  approval left them.
\<close>

theorem earn_approve_reverse:
  assumes "pc_points pd = 100"
    and "pt_id t = Some (new_transaction_id (fake_transactions_db d))"
    and "points t = pc_points pd"
  shows
  "(let b0 = (case map_of (fake_points_db d) u of None \<Rightarrow> zero_balance u now | Some b \<Rightarrow> b);
        new_id = new_transaction_id (fake_transactions_db d)
    in case earn_points pd u now d of (d1, r1) \<Rightarrow>
       case approve_transaction new_id admin now' d1 of (d2, r2) \<Rightarrow>
       case reverse t adm reason utcnow of (t', r) \<Rightarrow>
         map_option available_points (map_of (fake_points_db d2) u) =
           Some (available_points b0 + 100) \<and>
         map_option tx_status (map_of (fake_transactions_db d2) new_id) = Some ''completed'' \<and>
         t' = t\<lparr>status := Some REVERSED\<rparr> \<and>
         transaction_type r = ADJUSTED \<and> status r = Some COMPLETED \<and>
         points r = - 100 \<and> related_transaction_id r = Some new_id)"
  using assms
  by (cases "map_of (fake_points_db d) u")
     (simp_all add: earn_points_def approve_transaction_def Let_def update_conv'
        new_transaction_id_fresh reverse_def new_PointTransaction_def)

theorem earn_approve_reverse_witness:
  "pc_points (sample_earn 100) = 100 \<and>
   pt_id (sample_entry EARNED COMPLETED) =
     Some (new_transaction_id (fake_transactions_db (initial_db 0))) \<and>
   points (sample_entry EARNED COMPLETED) = pc_points (sample_earn 100) \<and>
   map_option available_points
     (map_of (fake_points_db
        (run [(Earn (sample_earn 100) ''user1@example.com'', 1),
              (Approve 4 ''admin@linkplace.com'', 2)] (initial_db 0)))
        ''user1@example.com'') = Some 750 \<and>
   points (snd (reverse (sample_entry EARNED COMPLETED) 2 None sample_utcnow)) = - 100 \<and>
   fst (reverse (sample_entry EARNED COMPLETED) 2 None sample_utcnow) =
     (sample_entry EARNED COMPLETED)\<lparr>status := Some REVERSED\<rparr>"
proof -
  have h1: "pc_points (sample_earn 100) = 100" by (simp add: sample_earn_def)
  have n: "new_transaction_id (fake_transactions_db (initial_db 0)) = 4"
    by (simp add: initial_db_def new_transaction_id_def)
  have h2: "pt_id (sample_entry EARNED COMPLETED) =
     Some (new_transaction_id (fake_transactions_db (initial_db 0)))"
    by (simp add: n sample_entry_def new_PointTransaction_def)
  have h3: "points (sample_entry EARNED COMPLETED) = pc_points (sample_earn 100)"
    by (simp add: sample_entry_def new_PointTransaction_def sample_earn_def)
  have b: "map_of (fake_points_db (initial_db 0)) ''user1@example.com'' =
     Some \<lparr>user_email = ''user1@example.com'', total_points = 850,
           available_points = 650, pending_points = 200, used_points = 350,
           expired_points = 50, last_updated = 0\<rparr>"
    by (simp add: initial_db_def)
  note inst = earn_approve_reverse [OF h1 h2 h3, where u = "''user1@example.com''"
      and now = 1 and admin = "''admin@linkplace.com''" and now' = 2 and adm = 2
      and reason = None and utcnow = sample_utcnow]
  have c1: "map_option available_points
     (map_of (fake_points_db
        (run [(Earn (sample_earn 100) ''user1@example.com'', 1),
              (Approve 4 ''admin@linkplace.com'', 2)] (initial_db 0)))
        ''user1@example.com'') = Some 750"
    using inst by (simp add: Let_def split_beta n b)
  have c2: "points (snd (reverse (sample_entry EARNED COMPLETED) 2 None sample_utcnow)) = - 100"
    using inst by (simp add: Let_def split_beta)
  have c3: "fst (reverse (sample_entry EARNED COMPLETED) 2 None sample_utcnow) =
     (sample_entry EARNED COMPLETED)\<lparr>status := Some REVERSED\<rparr>"
    using inst by (simp add: Let_def split_beta)
  from h1 h2 h3 c1 c2 c3 show ?thesis by blast
qed

text \<open>
  From the initial dictionaries: \<open>user1@example.com\<close> has 650 available points
  before and 750 after the earning of 100 and its approval; the reversal changes only the
  entity.
\<close>

theorem earn_approve_reverse_counterexample:
  "map_option available_points
     (map_of (fake_points_db (initial_db 0)) ''user1@example.com'') = Some 650 \<and>
   map_option available_points
     (map_of (fake_points_db
        (run [(Earn (sample_earn 100) ''user1@example.com'', 1),
              (Approve 4 ''admin@linkplace.com'', 2)] (initial_db 0)))
        ''user1@example.com'') = Some 750 \<and>
   map_option tx_status
     (map_of (fake_transactions_db
        (run [(Earn (sample_earn 100) ''user1@example.com'', 1),
              (Approve 4 ''admin@linkplace.com'', 2)] (initial_db 0))) 4) = Some ''completed'' \<and>
   status (fst (reverse (sample_entry EARNED COMPLETED) 2 None sample_utcnow)) = Some REVERSED \<and>
   points (snd (reverse (sample_entry EARNED COMPLETED) 2 None sample_utcnow)) = - 100"
  by (simp add: earn_points_def approve_transaction_def Let_def initial_db_def
      new_transaction_id_def zero_balance_def sample_earn_def str_or_def reverse_def
      sample_entry_def new_PointTransaction_def)

end
